theory Spec2Isabelle
  imports Complex_Main "HOL-Library.Log_Nat" "HOL-Library.Multiset"
begin

section \<open>Account research tiering tool: the scoring engine of \<open>Results.tsx\<close>\<close>

text \<open>
  The engine is the callback \<open>calculateScores\<close> of \<open>src/pages/Results.tsx\<close> together with
  the CSV export \<open>exportResults\<close> of the same component. The data types follow
  \<open>src/types/index.ts\<close>. Field names shared by several interfaces (\<open>id\<close>, \<open>userId\<close>,
  \<open>createdAt\<close>, \<open>accountId\<close>) and the keyword \<open>notes\<close> carry a prefix.
\<close>

subsection \<open>JavaScript values\<close>

text \<open>
  \<open>AccountAnswer.answer\<close> has the type \<open>string | number | boolean\<close>. A JavaScript number is
  a finite double (a rational), \<open>NaN\<close> or one of the two infinities.
\<close>

datatype number = Finite rat | NaN | PosInfinity | NegInfinity

datatype answer_value = ABool bool | ANum number | AStr string

text \<open>
  \<open>ToBoolean\<close>: what the conditional \<open>answer.answer ? ... : ...\<close> tests. The falsy values
  are \<open>false\<close>, \<open>0\<close>, \<open>NaN\<close> and the empty string.
\<close>

fun ToBoolean :: "answer_value \<Rightarrow> bool" where
  "ToBoolean (ABool b) = b"
| "ToBoolean (ANum (Finite x)) = (x \<noteq> 0)"
| "ToBoolean (ANum NaN) = False"
| "ToBoolean (ANum PosInfinity) = True"
| "ToBoolean (ANum NegInfinity) = True"
| "ToBoolean (AStr s) = (s \<noteq> [])"

text \<open>
  \<open>ToNumber\<close>: the coercion that the comparison \<open>>\<close> applies to an operand that is
  not a number (the cast \<open>answer.answer as number\<close> does nothing at run time). The
  conversion of a string is the language's \<open>StringToNumber\<close>, taken as a parameter.
\<close>

fun ToNumber :: "(string \<Rightarrow> number) \<Rightarrow> answer_value \<Rightarrow> number" where
  "ToNumber StringToNumber (ABool b) = Finite (if b then 1 else 0)"
| "ToNumber StringToNumber (ANum n) = n"
| "ToNumber StringToNumber (AStr s) = StringToNumber s"

text \<open>The comparison \<open>n > 0\<close> on numbers; every comparison with \<open>NaN\<close> is false.\<close>

fun gt_zero :: "number \<Rightarrow> bool" where
  "gt_zero (Finite x) = (0 < x)"
| "gt_zero NaN = False"
| "gt_zero PosInfinity = True"
| "gt_zero NegInfinity = False"

subsection \<open>Double-precision arithmetic of the percentage\<close>

text \<open>
  Question weights are JavaScript numbers; every weight the application creates is an
  integer (the literals 8 and 5 and a slider with \<open>min = 1\<close>, \<open>max = 10\<close>, \<open>step = 1\<close> in
  \<open>CriteriaBuilder.tsx\<close>), so weights and the two sums are modelled as \<open>int\<close>: sums of
  integers are exact in double arithmetic below \<open>2^53\<close>. The quotient
  \<open>totalScore / maxScore\<close> and its product with 100 are not exact: each is rounded to the
  nearest double, ties to even (IEEE 754 binary64, 53 significant bits; the exponent range
  is not modelled, quotients of integers below \<open>2^53\<close> stay inside it).
\<close>

definition pow2 :: "int \<Rightarrow> rat" where
  "pow2 k = (if 0 \<le> k then 2 ^ nat k else 1 / 2 ^ nat (- k))"

text \<open>\<open>floor_log2 x\<close> is the exponent \<open>e\<close> with \<open>2^e \<le> x < 2^(e+1)\<close>, for \<open>x > 0\<close>.\<close>

definition floor_log2 :: "rat \<Rightarrow> int" where
  "floor_log2 x = (let (p, q) = quotient_of x; d = bitlen p - bitlen q
                   in if pow2 d \<le> x then d else d - 1)"

definition round_ties_even :: "rat \<Rightarrow> int" where
  "round_ties_even x = (let n = \<lfloor>x\<rfloor>; r = x - of_int n in
      if r < 1/2 then n else if 1/2 < r then n + 1 else if even n then n else n + 1)"

definition binary64 :: "rat \<Rightarrow> rat" where
  "binary64 x = (if x = 0 then 0 else
     let ulp = pow2 (floor_log2 \<bar>x\<bar> - 52)
     in of_int (round_ties_even (x / ulp)) * ulp)"

text \<open>\<open>Math.round\<close> rounds to the nearest integer, a tie towards plus infinity.\<close>

definition Math_round :: "rat \<Rightarrow> int" where
  "Math_round x = \<lfloor>x + 1/2\<rfloor>"

subsection \<open>The data model (\<open>src/types/index.ts\<close>)\<close>

datatype question_type = Boolean | Number | MultipleChoice

datatype tier = A | B | C | D

record Question =
  q_id :: string
  q_text :: string
  q_type :: question_type
  weight :: int
  options :: "string list option"
  q_companyId :: string
  q_userId :: string
  q_createdAt :: string

record Account =
  acc_id :: string
  name :: string
  industry :: string
  companySize :: string
  revenue :: string
  location :: string
  website :: "string option"
  acc_notes :: "string option"
  acc_userId :: string
  acc_createdAt :: string

record AccountAnswer =
  ans_id :: string
  accountId :: string
  questionId :: string
  answer :: answer_value
  ans_userId :: string
  ans_createdAt :: string

record AccountScore =
  score_accountId :: string
  totalScore :: int
  maxScore :: int
  percentage :: int
  tier :: tier
  rank :: int

record EvaluationResult =
  account :: Account
  score :: AccountScore
  answers :: "AccountAnswer list"

subsection \<open>\<open>calculateScores\<close>\<close>

text \<open>The \<open>switch (question.type)\<close> of lines 36 to 50: the score of an answered question.\<close>

definition score_answer :: "(string \<Rightarrow> number) \<Rightarrow> Question \<Rightarrow> AccountAnswer \<Rightarrow> int" where
  "score_answer StringToNumber question a =
     (case q_type question of
        Boolean \<Rightarrow> (if answer a = ABool True then weight question else 0)
      | Number \<Rightarrow> (if gt_zero (ToNumber StringToNumber (answer a)) then weight question else 0)
      | MultipleChoice \<Rightarrow> (if ToBoolean (answer a) then weight question else 0))"

text \<open>
  The body of \<open>questions.forEach\<close> (lines 29 to 54) on the pair of the two mutable
  variables \<open>totalScore\<close> and \<open>maxScore\<close>. \<open>find\<close> returns the first answer with the question's
  id, or nothing; an answer object is always truthy.
\<close>

definition question_step ::
  "(string \<Rightarrow> number) \<Rightarrow> AccountAnswer list \<Rightarrow> Question \<Rightarrow> int \<times> int \<Rightarrow> int \<times> int" where
  "question_step StringToNumber accountAnswers question tm =
     (case tm of (tot, mx) \<Rightarrow>
        (case find (\<lambda>a. questionId a = q_id question) accountAnswers of
           None \<Rightarrow> (tot, mx + weight question)
         | Some a \<Rightarrow> (tot + score_answer StringToNumber question a,
                      mx + weight question)))"

text \<open>Line 56, on the final values \<open>tot\<close> of \<open>totalScore\<close> and \<open>mx\<close> of \<open>maxScore\<close>.\<close>

definition percentage_of :: "int \<Rightarrow> int \<Rightarrow> int" where
  "percentage_of tot mx =
     (if 0 < mx
      then Math_round (binary64 (binary64 (of_int tot / of_int mx) * 100))
      else 0)"

text \<open>Lines 58 to 62.\<close>

definition tier_of :: "int \<Rightarrow> tier" where
  "tier_of p =
     (if 80 \<le> p then A
      else if 60 \<le> p then B
      else if 40 \<le> p then C
      else D)"

text \<open>The body of \<open>accounts.forEach\<close> (lines 24 to 78): the result pushed for one account.\<close>

definition evaluate_account ::
  "(string \<Rightarrow> number) \<Rightarrow> Question list \<Rightarrow> AccountAnswer list \<Rightarrow> Account \<Rightarrow> EvaluationResult" where
  "evaluate_account StringToNumber questions all_answers acc =
     (let accountAnswers = filter (\<lambda>a. accountId a = acc_id acc) all_answers;
          tm = fold (question_step StringToNumber accountAnswers) questions (0, 0);
          p = percentage_of (fst tm) (snd tm)
      in \<lparr>account = acc,
          score = \<lparr>score_accountId = acc_id acc, totalScore = fst tm, maxScore = snd tm,
                   percentage = p, tier = tier_of p, rank = 0\<rparr>,
          answers = accountAnswers\<rparr>)"

text \<open>
  \<open>Array.prototype.sort\<close> with a comparison function. The language requires the sort to be
  stable (ECMAScript 2019 and later): an element goes before another one when the
  comparison is negative, and elements that compare equal keep their order. Insertion from
  the right into the sorted rest computes that order.
\<close>

fun insert_sorted :: "('a \<Rightarrow> 'a \<Rightarrow> int) \<Rightarrow> 'a \<Rightarrow> 'a list \<Rightarrow> 'a list" where
  "insert_sorted compareFn x [] = [x]"
| "insert_sorted compareFn x (y # ys) =
     (if compareFn x y \<le> 0 then x # y # ys else y # insert_sorted compareFn x ys)"

definition Array_sort :: "('a \<Rightarrow> 'a \<Rightarrow> int) \<Rightarrow> 'a list \<Rightarrow> 'a list" where
  "Array_sort compareFn xs = foldr (insert_sorted compareFn) xs []"

text \<open>Line 81: the comparison function \<open>(a, b) => b.score.percentage - a.score.percentage\<close>.\<close>

definition by_percentage :: "EvaluationResult \<Rightarrow> EvaluationResult \<Rightarrow> int" where
  "by_percentage a b = percentage (score b) - percentage (score a)"

text \<open>Lines 82 to 84: \<open>result.score.rank = index + 1\<close>.\<close>

definition set_rank :: "int \<Rightarrow> EvaluationResult \<Rightarrow> EvaluationResult" where
  "set_rank k result = result\<lparr>score := (score result)\<lparr>rank := k\<rparr>\<rparr>"

definition assign_ranks :: "EvaluationResult list \<Rightarrow> EvaluationResult list" where
  "assign_ranks rs = map (\<lambda>(index, result). set_rank (int index + 1) result) (enumerate 0 rs)"

definition evaluate_all ::
  "(string \<Rightarrow> number) \<Rightarrow> Account list \<Rightarrow> Question list \<Rightarrow> AccountAnswer list
     \<Rightarrow> EvaluationResult list" where
  "evaluate_all StringToNumber accounts questions all_answers =
     map (evaluate_account StringToNumber questions all_answers) accounts"

definition calculateScores ::
  "(string \<Rightarrow> number) \<Rightarrow> Account list \<Rightarrow> Question list \<Rightarrow> AccountAnswer list
     \<Rightarrow> EvaluationResult list" where
  "calculateScores StringToNumber accounts questions all_answers =
     assign_ranks (Array_sort by_percentage
       (evaluate_all StringToNumber accounts questions all_answers))"

subsection \<open>\<open>exportResults\<close>\<close>

text \<open>
  Lines 118 to 129 build the text of the CSV file: an array of rows (each an array of cells),
  every row joined with a comma and the rows joined with a line feed. \<open>join\<close> converts a
  number to its decimal string; the integers here print as decimal digits (JavaScript does
  so below \<open>10^21\<close>). The download of the text is an effect outside the model.
\<close>

function digits :: "nat \<Rightarrow> string" where
  "digits n = (if n < 10 then [''0123456789'' ! n]
               else digits (n div 10) @ [''0123456789'' ! (n mod 10)])"
  by pat_completeness auto
termination
  by (relation "measure (\<lambda>n. n)") auto

definition Number_toString :: "int \<Rightarrow> string" where
  "Number_toString i = (if i < 0 then ''-'' @ digits (nat (- i)) else digits (nat i))"

fun tier_toString :: "tier \<Rightarrow> string" where
  "tier_toString A = ''A''"
| "tier_toString B = ''B''"
| "tier_toString C = ''C''"
| "tier_toString D = ''D''"

fun join :: "string \<Rightarrow> string list \<Rightarrow> string" where
  "join sep [] = []"
| "join sep [x] = x"
| "join sep (x # y # ys) = x @ sep @ join sep (y # ys)"

definition csv_header :: "string list" where
  "csv_header = [''Rank'', ''Company'', ''Industry'', ''Score'', ''Percentage'', ''Tier'']"

definition csv_fields :: "EvaluationResult \<Rightarrow> string list" where
  "csv_fields result =
     [Number_toString (rank (score result)),
      name (account result),
      industry (account result),
      Number_toString (totalScore (score result)) @ ''/'' @ Number_toString (maxScore (score result)),
      Number_toString (percentage (score result)) @ ''%'',
      tier_toString (tier (score result))]"

definition exportResults :: "EvaluationResult list \<Rightarrow> string" where
  "exportResults results =
     join [CHR 0x0A] (map (join '','') (csv_header # map csv_fields results))"

subsection \<open>The specification's formulas\<close>

text \<open>
  The row format as the specification writes it, with the score and the percentage in
  double quotes: \<open>rank,name,industry,"total/max","percentage%",tier\<close>.
\<close>

definition spec_csv_row :: "EvaluationResult \<Rightarrow> string" where
  "spec_csv_row result =
     Number_toString (rank (score result)) @ '','' @ name (account result) @ '','' @
     industry (account result) @ '','' @
     [CHR 0x22] @ Number_toString (totalScore (score result)) @ ''/'' @
       Number_toString (maxScore (score result)) @ [CHR 0x22] @ '','' @
     [CHR 0x22] @ Number_toString (percentage (score result)) @ ''%'' @ [CHR 0x22] @ '','' @
     tier_toString (tier (score result))"

definition spec_csv :: "EvaluationResult list \<Rightarrow> string" where
  "spec_csv results =
     join [CHR 0x0A] (''Rank,Company,Industry,Score,Percentage,Tier'' # map spec_csv_row results)"

text \<open>
  The percentage as the specification writes it: \<open>round(100 * totalScore / maxScore)\<close>
  in exact arithmetic when \<open>maxScore > 0\<close>, else 0.
\<close>

definition spec_percentage :: "int \<Rightarrow> int \<Rightarrow> int" where
  "spec_percentage tot mx = (if 0 < mx then round (100 * of_int tot / (of_int mx :: rat)) else 0)"

text \<open>The tiers as ordinal grades: A is the best, D the worst.\<close>

fun tier_grade :: "tier \<Rightarrow> nat" where
  "tier_grade A = 3"
| "tier_grade B = 2"
| "tier_grade C = 1"
| "tier_grade D = 0"

text \<open>The answers the specification lets score on a multiple-choice question.\<close>

fun nonempty_string :: "answer_value \<Rightarrow> bool" where
  "nonempty_string (AStr s) = (s \<noteq> [])"
| "nonempty_string v = False"

subsection \<open>Example inputs\<close>

definition mk_question :: "string \<Rightarrow> question_type \<Rightarrow> int \<Rightarrow> Question" where
  "mk_question i ty w =
     \<lparr>q_id = i, q_text = ''?'', q_type = ty, weight = w, options = None,
      q_companyId = ''c'', q_userId = ''u'', q_createdAt = ''''\<rparr>"

definition mk_account :: "string \<Rightarrow> string \<Rightarrow> string \<Rightarrow> Account" where
  "mk_account i n ind =
     \<lparr>acc_id = i, name = n, industry = ind, companySize = '''', revenue = '''',
      location = '''', website = None, acc_notes = None, acc_userId = ''u'',
      acc_createdAt = ''''\<rparr>"

definition mk_answer :: "string \<Rightarrow> string \<Rightarrow> answer_value \<Rightarrow> AccountAnswer" where
  "mk_answer ai qi v =
     \<lparr>ans_id = ''answer_'' @ ai @ ''_'' @ qi, accountId = ai, questionId = qi, answer = v,
      ans_userId = ''u'', ans_createdAt = ''''\<rparr>"

text \<open>No string is a number: a stand-in for \<open>StringToNumber\<close> in the examples.\<close>

definition no_number :: "string \<Rightarrow> number" where
  "no_number s = NaN"

text \<open>
  Two questions (a boolean one of weight 6, a number one of weight 4) and three accounts;
  the account \<open>x\<close> answers the number question with 0.
\<close>

definition ex_questions :: "Question list" where
  "ex_questions = [mk_question ''q1'' Boolean 6, mk_question ''q2'' Number 4]"

definition ex_accounts :: "Account list" where
  "ex_accounts = [mk_account ''x'' ''Xenon'' ''Energy'', mk_account ''y'' ''Yarrow'' ''Retail'',
                  mk_account ''z'' ''Zephyr'' ''Media'']"

definition ex_answers :: "AccountAnswer list" where
  "ex_answers = [mk_answer ''x'' ''q1'' (ABool True), mk_answer ''y'' ''q2'' (ANum (Finite 5)),
                 mk_answer ''z'' ''q1'' (ABool True), mk_answer ''z'' ''q2'' (ANum (Finite 5)),
                 mk_answer ''x'' ''q2'' (ANum (Finite 0))]"

definition ex_results :: "EvaluationResult list" where
  "ex_results = calculateScores no_number ex_accounts ex_questions ex_answers"

text \<open>
  Five boolean questions with weights from the slider's range, summing to 40; the account
  answers yes to the first three (23 points) and no to the other two.
\<close>

definition half_questions :: "Question list" where
  "half_questions = [mk_question ''q1'' Boolean 10, mk_question ''q2'' Boolean 10,
                   mk_question ''q3'' Boolean 3, mk_question ''q4'' Boolean 10,
                   mk_question ''q5'' Boolean 7]"

definition half_accounts :: "Account list" where
  "half_accounts = [mk_account ''a'' ''Acme'' ''Software'']"

definition half_answers :: "AccountAnswer list" where
  "half_answers = [mk_answer ''a'' ''q1'' (ABool True), mk_answer ''a'' ''q2'' (ABool True),
                 mk_answer ''a'' ''q3'' (ABool True), mk_answer ''a'' ''q4'' (ABool False),
                 mk_answer ''a'' ''q5'' (ABool False)]"

text \<open>Two accounts tie at 75 percent; a third one, last in the input, reaches 100.\<close>

definition tie_questions :: "Question list" where
  "tie_questions = [mk_question ''q1'' Boolean 3, mk_question ''q2'' Boolean 1]"

definition tie_accounts :: "Account list" where
  "tie_accounts = [mk_account ''x'' ''Xenon'' ''Energy'', mk_account ''y'' ''Yarrow'' ''Retail'',
                   mk_account ''w'' ''Willow'' ''Health'']"

definition tie_answers :: "AccountAnswer list" where
  "tie_answers = [mk_answer ''x'' ''q1'' (ABool True), mk_answer ''y'' ''q1'' (ABool True),
                  mk_answer ''w'' ''q1'' (ABool True), mk_answer ''w'' ''q2'' (ABool True)]"

text \<open>Two answers of one account to one question: first no, then yes.\<close>

definition dup_questions :: "Question list" where
  "dup_questions = [mk_question ''q1'' Boolean 10]"

definition dup_accounts :: "Account list" where
  "dup_accounts = [mk_account ''d'' ''Dune'' ''Mining'']"

definition dup_answers :: "AccountAnswer list" where
  "dup_answers = [mk_answer ''d'' ''q1'' (ABool False), mk_answer ''d'' ''q1'' (ABool True)]"

definition dup_results :: "EvaluationResult list" where
  "dup_results = calculateScores no_number dup_accounts dup_questions dup_answers"

text \<open>A multiple-choice question with two options.\<close>

definition mc_question :: Question where
  "mc_question = (mk_question ''m'' MultipleChoice 5)\<lparr>options := Some [''Low'', ''High'']\<rparr>"

section \<open>Properties\<close>

subsection \<open>The double-precision model\<close>

text \<open>
  \<open>floor_log2\<close> is the binary exponent, \<open>binary64\<close> stays within half a unit in the last
  place of its argument, and it leaves every number with a significand below \<open>2^53\<close>
  unchanged, the integers below \<open>2^53\<close> among them.
\<close>

lemma pow2_power_int: "pow2 k = power_int 2 k"
  by (simp add: pow2_def power_int_def inverse_eq_divide power_one_over)

lemma pow2_pos: "0 < pow2 k"
  by (simp add: pow2_power_int)

lemma pow2_add: "pow2 (a + b) = pow2 a * pow2 b"
  by (simp add: pow2_power_int power_int_add)

lemma pow2_mono: "a \<le> b \<Longrightarrow> pow2 a \<le> pow2 b"
  by (simp add: pow2_power_int power_int_increasing)

lemma pow2_nat: "pow2 (int n) = 2 ^ n"
  by (simp add: pow2_def)

lemma floor_log2_bounds:
  assumes "0 < x"
  shows "pow2 (floor_log2 x) \<le> x \<and> x < pow2 (floor_log2 x + 1)"
proof -
  obtain p q where pq: "quotient_of x = (p, q)" by (cases "quotient_of x")
  then have q: "0 < q" and x: "x = of_int p / of_int q"
    by (auto dest: quotient_of_denom_pos quotient_of_div)
  with assms have p: "0 < p" by (simp add: zero_less_divide_iff)
  define d where "d = bitlen p - bitlen q"
  from bitlen_bounds [OF p] bitlen_bounds [OF q]
  have bp: "2 ^ nat (bitlen p - 1) \<le> p" "p < 2 ^ nat (bitlen p)"
    and bq: "2 ^ nat (bitlen q - 1) \<le> q" "q < 2 ^ nat (bitlen q)" by simp_all
  have p1: "1 \<le> bitlen p" and q1: "1 \<le> bitlen q"
    using p q by (simp_all add: bitlen_alt_def)
  have Pl: "pow2 (bitlen p - 1) \<le> of_int p"
  proof -
    have "pow2 (bitlen p - 1) = of_int (2 ^ nat (bitlen p - 1))"
      using p1 by (simp add: pow2_def)
    also have "\<dots> \<le> of_int p" using bp(1) by (simp only: of_int_le_iff)
    finally show ?thesis .
  qed
  have Pu: "of_int p < pow2 (bitlen p)"
  proof -
    have "(of_int p :: rat) < of_int (2 ^ nat (bitlen p))" using bp(2) by (simp only: of_int_less_iff)
    also have "\<dots> = pow2 (bitlen p)" using p1 by (simp add: pow2_def)
    finally show ?thesis .
  qed
  have Ql: "pow2 (bitlen q - 1) \<le> of_int q"
  proof -
    have "pow2 (bitlen q - 1) = of_int (2 ^ nat (bitlen q - 1))"
      using q1 by (simp add: pow2_def)
    also have "\<dots> \<le> of_int q" using bq(1) by (simp only: of_int_le_iff)
    finally show ?thesis .
  qed
  have Qu: "of_int q < pow2 (bitlen q)"
  proof -
    have "(of_int q :: rat) < of_int (2 ^ nat (bitlen q))" using bq(2) by (simp only: of_int_less_iff)
    also have "\<dots> = pow2 (bitlen q)" using q1 by (simp add: pow2_def)
    finally show ?thesis .
  qed
  have qpos: "(0::rat) < of_int q" using q by simp
  have upper: "x < pow2 (d + 1)"
  proof -
    have "of_int p < pow2 (d + 1) * pow2 (bitlen q - 1)"
      using Pu by (simp add: pow2_add [symmetric] d_def)
    also have "\<dots> \<le> pow2 (d + 1) * of_int q"
      using Ql pow2_pos [of "d + 1"] by (simp add: mult_left_mono)
    finally show ?thesis using qpos by (simp add: x pos_divide_less_eq)
  qed
  have lower: "pow2 (d - 1) < x"
  proof -
    have "pow2 (d - 1) * of_int q < pow2 (d - 1) * pow2 (bitlen q)"
      using Qu pow2_pos [of "d - 1"] by (simp add: mult_strict_left_mono)
    also have "\<dots> = pow2 (bitlen p - 1)" by (simp add: pow2_add [symmetric] d_def)
    also have "\<dots> \<le> of_int p" by (rule Pl)
    finally show ?thesis using qpos by (simp add: x pos_less_divide_eq)
  qed
  have fl: "floor_log2 x = (if pow2 d \<le> x then d else d - 1)"
    by (simp add: floor_log2_def pq d_def Let_def)
  show ?thesis
  proof (cases "pow2 d \<le> x")
    case True
    with upper fl show ?thesis by simp
  next
    case False
    with lower fl show ?thesis by simp
  qed
qed

lemma round_ties_even_error: "\<bar>of_int (round_ties_even x) - x\<bar> \<le> 1 / 2"
proof -
  have "of_int \<lfloor>x\<rfloor> \<le> x" and "x < of_int \<lfloor>x\<rfloor> + 1" by linarith+
  then show ?thesis by (auto simp: round_ties_even_def Let_def)
qed

lemma round_ties_even_of_int: "round_ties_even (of_int n) = n"
  by (simp add: round_ties_even_def)

lemma binary64_error:
  assumes "x \<noteq> 0"
  shows "\<bar>binary64 x - x\<bar> \<le> pow2 (floor_log2 \<bar>x\<bar> - 53)"
proof -
  define u where "u = pow2 (floor_log2 \<bar>x\<bar> - 52)"
  have u: "0 < u" by (simp add: u_def pow2_pos)
  have "binary64 x - x = (of_int (round_ties_even (x / u)) - x / u) * u"
    using assms u by (simp add: binary64_def u_def [symmetric] Let_def algebra_simps)
  then have "\<bar>binary64 x - x\<bar> = \<bar>of_int (round_ties_even (x / u)) - x / u\<bar> * u"
    using u by (simp add: abs_mult)
  also have "\<dots> \<le> 1 / 2 * u"
    using round_ties_even_error [of "x / u"] u by (simp add: mult_right_mono)
  also have "1 / 2 * u = pow2 (floor_log2 \<bar>x\<bar> - 53)"
  proof -
    have "pow2 (floor_log2 \<bar>x\<bar> - 52) = pow2 (floor_log2 \<bar>x\<bar> - 53) * pow2 1"
      by (simp add: pow2_add [symmetric])
    then show ?thesis by (simp add: u_def pow2_def)
  qed
  finally show ?thesis .
qed

lemma pow2_less_cancel: "pow2 a < pow2 b \<Longrightarrow> a < b"
  using pow2_mono [of b a] by (cases "a < b") simp_all

lemma binary64_exact:
  assumes "\<bar>m\<bar> < 2 ^ 53"
  shows "binary64 (of_int m * pow2 e) = of_int m * pow2 e"
proof (cases "m = 0")
  case True
  then show ?thesis by (simp add: binary64_def)
next
  case False
  define x where "x = of_int m * pow2 e"
  define n where "n = floor_log2 \<bar>x\<bar>"
  have ax: "\<bar>x\<bar> = of_int \<bar>m\<bar> * pow2 e"
    using pow2_pos [of e] by (simp add: x_def abs_mult)
  from False have xpos: "0 < \<bar>x\<bar>" using pow2_pos [of e] by (simp add: x_def)
  from floor_log2_bounds [OF xpos] have lo: "pow2 n \<le> \<bar>x\<bar>" by (simp add: n_def)
  have "of_int \<bar>m\<bar> < (pow2 53 :: rat)"
  proof -
    have "(of_int \<bar>m\<bar> :: rat) < of_int (2 ^ 53)" using assms by (simp only: of_int_less_iff)
    then show ?thesis by (simp add: pow2_def)
  qed
  then have "\<bar>x\<bar> < pow2 53 * pow2 e"
    using pow2_pos [of e] by (simp add: ax mult_strict_right_mono)
  with lo have "pow2 n < pow2 (53 + e)" by (simp add: pow2_add)
  then have k: "0 \<le> e - n + 52" using pow2_less_cancel [of n "53 + e"] by simp
  define k where "k = nat (e - n + 52)"
  have split: "pow2 e = pow2 (int k) * pow2 (n - 52)"
    using k by (simp add: pow2_add [symmetric] k_def)
  have quot: "x / pow2 (n - 52) = of_int (m * 2 ^ k)"
    using pow2_pos [of "n - 52"] by (simp add: x_def split pow2_nat)
  have "binary64 x = of_int (round_ties_even (x / pow2 (n - 52))) * pow2 (n - 52)"
    using xpos by (simp add: binary64_def n_def Let_def)
  also have "\<dots> = of_int (m * 2 ^ k) * pow2 (n - 52)"
    by (simp only: quot round_ties_even_of_int)
  also have "\<dots> = x"
    by (simp add: x_def split pow2_nat)
  finally show ?thesis by (simp add: x_def)
qed

lemma binary64_of_int:
  assumes "\<bar>n\<bar> < 2 ^ 53"
  shows "binary64 (of_int n) = of_int n"
  using binary64_exact [OF assms, of 0] by (simp add: pow2_def)

subsection \<open>The loop over the questions\<close>

lemma snd_fold_question_step:
  "snd (fold (question_step sn aa) qs (t, m)) = m + sum_list (map weight qs)"
  by (induction qs arbitrary: t m) (simp_all add: question_step_def split: option.split)

lemma find_filter: "find P (filter Q xs) = find (\<lambda>a. Q a \<and> P a) xs"
  by (induction xs) simp_all

lemma fst_fold_question_step:
  "fst (fold (question_step sn aa) qs (t, m)) =
     t + (\<Sum>q\<leftarrow>qs. case find (\<lambda>a. questionId a = q_id q) aa of
                      None \<Rightarrow> 0 | Some a \<Rightarrow> score_answer sn q a)"
  by (induction qs arbitrary: t m) (simp_all add: question_step_def split: option.split)

lemma score_answer_bounds:
  "0 \<le> weight q \<Longrightarrow> 0 \<le> score_answer sn q a \<and> score_answer sn q a \<le> weight q"
  by (simp add: score_answer_def split: question_type.split)

lemma fold_question_step_bounds:
  assumes "\<forall>q \<in> set qs. 0 \<le> weight q" and "0 \<le> t" and "t \<le> m"
  shows "0 \<le> fst (fold (question_step sn aa) qs (t, m))
       \<and> fst (fold (question_step sn aa) qs (t, m)) \<le> snd (fold (question_step sn aa) qs (t, m))"
  using assms
proof (induction qs arbitrary: t m)
  case Nil
  then show ?case by simp
next
  case (Cons q qs)
  obtain t' m' where step: "question_step sn aa q (t, m) = (t', m')"
    by (cases "question_step sn aa q (t, m)")
  from Cons.prems have w: "0 \<le> weight q" by simp
  have "0 \<le> t' \<and> t' \<le> m'"
  proof (cases "find (\<lambda>a. questionId a = q_id q) aa")
    case None
    with step Cons.prems(2,3) w show ?thesis by (auto simp: question_step_def)
  next
    case (Some a)
    with step have "t' = t + score_answer sn q a" and "m' = m + weight q"
      by (auto simp: question_step_def)
    with score_answer_bounds [OF w, of sn a] Cons.prems(2,3) show ?thesis by linarith
  qed
  moreover from Cons.prems have "\<forall>q \<in> set qs. 0 \<le> weight q" by simp
  ultimately show ?case using Cons.IH [of t' m'] step by simp
qed

subsection \<open>The result of one account\<close>

lemma account_evaluate_account [simp]:
  "account (evaluate_account sn questions all_answers acc) = acc"
  by (simp add: evaluate_account_def Let_def)

lemma maxScore_evaluate_account:
  "maxScore (score (evaluate_account sn questions all_answers acc)) = sum_list (map weight questions)"
  by (simp add: evaluate_account_def Let_def snd_fold_question_step)

lemma totalScore_evaluate_account:
  "totalScore (score (evaluate_account sn questions all_answers acc)) =
     (\<Sum>q\<leftarrow>questions.
        case find (\<lambda>a. accountId a = acc_id acc \<and> questionId a = q_id q) all_answers of
          None \<Rightarrow> 0 | Some a \<Rightarrow> score_answer sn q a)"
  by (simp add: evaluate_account_def Let_def fst_fold_question_step find_filter)

lemma answers_evaluate_account:
  "answers (evaluate_account sn questions all_answers acc)
     = filter (\<lambda>a. accountId a = acc_id acc) all_answers"
  by (simp add: evaluate_account_def Let_def)

lemma tier_evaluate_account:
  "tier (score (evaluate_account sn questions all_answers acc))
     = tier_of (percentage (score (evaluate_account sn questions all_answers acc)))"
  by (simp add: evaluate_account_def Let_def)

lemma tier_of_mono: "p \<le> p' \<Longrightarrow> tier_grade (tier_of p) \<le> tier_grade (tier_of p')"
  by (simp add: tier_of_def)

lemma percentage_evaluate_account:
  "percentage (score (evaluate_account sn questions all_answers acc))
     = percentage_of (totalScore (score (evaluate_account sn questions all_answers acc)))
         (maxScore (score (evaluate_account sn questions all_answers acc)))"
  by (simp add: evaluate_account_def Let_def)

lemma rank_evaluate_account [simp]:
  "set_rank 0 (evaluate_account sn questions all_answers acc)
     = evaluate_account sn questions all_answers acc"
  by (simp add: evaluate_account_def set_rank_def Let_def)

subsection \<open>Sorting and ranking\<close>

lemma percentage_set_rank [simp]: "percentage (score (set_rank k r)) = percentage (score r)"
  by (simp add: set_rank_def)

lemma account_set_rank [simp]: "account (set_rank k r) = account r"
  by (simp add: set_rank_def)

lemma rank_set_rank [simp]: "rank (score (set_rank k r)) = k"
  by (simp add: set_rank_def)

lemma set_rank_set_rank [simp]: "set_rank k (set_rank j r) = set_rank k r"
  by (simp add: set_rank_def)

lemma insert_sorted_insort_key:
  "insert_sorted by_percentage x ys = insort_key (\<lambda>r. - percentage (score r)) x ys"
  by (induction ys) (simp_all add: by_percentage_def)

lemma Array_sort_sort_key:
  "Array_sort by_percentage xs = sort_key (\<lambda>r. - percentage (score r)) xs"
proof -
  have "insert_sorted by_percentage = insort_key (\<lambda>r. - percentage (score r))"
    by (intro ext) (rule insert_sorted_insort_key)
  then show ?thesis by (simp add: Array_sort_def sort_key_def)
qed

lemma mset_Array_sort: "mset (Array_sort by_percentage xs) = mset xs"
  by (simp add: Array_sort_sort_key)

lemma set_Array_sort: "set (Array_sort by_percentage xs) = set xs"
  by (simp add: Array_sort_sort_key)

lemma length_Array_sort: "length (Array_sort by_percentage xs) = length xs"
  by (simp add: Array_sort_sort_key)

lemma sorted_Array_sort:
  "sorted_wrt (\<lambda>a b. percentage (score b) \<le> percentage (score a)) (Array_sort by_percentage xs)"
proof -
  have "sorted (map (\<lambda>r. - percentage (score r)) (sort_key (\<lambda>r. - percentage (score r)) xs))"
    by (rule sorted_sort_key)
  then show ?thesis by (simp add: Array_sort_sort_key sorted_map)
qed

lemma stable_Array_sort:
  "filter (\<lambda>r. percentage (score r) = p) (Array_sort by_percentage xs)
     = filter (\<lambda>r. percentage (score r) = p) xs"
proof -
  have "filter (\<lambda>r. - percentage (score r) = - p) (sort_key (\<lambda>r. - percentage (score r)) xs)
          = filter (\<lambda>r. - percentage (score r) = - p) xs"
    by (rule sort_key_stable)
  then show ?thesis by (simp add: Array_sort_sort_key)
qed

lemma length_assign_ranks: "length (assign_ranks rs) = length rs"
  by (simp add: assign_ranks_def)

lemma nth_assign_ranks:
  "i < length rs \<Longrightarrow> assign_ranks rs ! i = set_rank (int i + 1) (rs ! i)"
  by (simp add: assign_ranks_def nth_enumerate_eq)

lemma map_fun_assign_ranks:
  assumes "\<And>k r. f (set_rank k r) = f r"
  shows "map f (assign_ranks rs) = map f rs"
  by (rule nth_equalityI) (simp_all add: length_assign_ranks nth_assign_ranks assms)

lemma ranks_assign_ranks:
  "map (\<lambda>r. rank (score r)) (assign_ranks rs) = map int [1..<length rs + 1]"
  by (rule nth_equalityI) (simp_all add: length_assign_ranks nth_assign_ranks del: upt_Suc)

lemma sorted_assign_ranks:
  assumes "sorted_wrt (\<lambda>a b. percentage (score b) \<le> percentage (score a)) rs"
  shows "sorted_wrt (\<lambda>a b. percentage (score b) \<le> percentage (score a)) (assign_ranks rs)"
  using assms
  by (simp add: sorted_wrt_iff_nth_less length_assign_ranks nth_assign_ranks)

lemma assign_ranks_member:
  assumes "r \<in> set (assign_ranks rs)"
  obtains k r0 where "r0 \<in> set rs" and "r = set_rank k r0"
proof -
  from assms obtain i where i: "i < length rs" and r: "r = assign_ranks rs ! i"
    by (metis in_set_conv_nth length_assign_ranks)
  then have "r = set_rank (int i + 1) (rs ! i)" by (simp add: nth_assign_ranks)
  moreover from i have "rs ! i \<in> set rs" by simp
  ultimately show thesis using that by blast
qed

subsection \<open>The list of results\<close>

lemma calculateScores_member:
  assumes "r \<in> set (calculateScores sn accounts questions all_answers)"
  obtains k acc where "acc \<in> set accounts"
    and "r = set_rank k (evaluate_account sn questions all_answers acc)"
proof -
  from assms obtain k r0 where "r0 \<in> set (evaluate_all sn accounts questions all_answers)"
    and "r = set_rank k r0"
    unfolding calculateScores_def by (elim assign_ranks_member) (simp add: set_Array_sort)
  then show thesis using that by (auto simp: evaluate_all_def)
qed

lemma length_calculateScores:
  "length (calculateScores sn accounts questions all_answers) = length accounts"
  by (simp add: calculateScores_def length_assign_ranks length_Array_sort evaluate_all_def)

lemma ranks_calculateScores:
  "map (\<lambda>r. rank (score r)) (calculateScores sn accounts questions all_answers)
     = map int [1..<length accounts + 1]"
  by (simp add: calculateScores_def ranks_assign_ranks length_Array_sort evaluate_all_def)

lemma unranked_calculateScores:
  "map (set_rank 0) (calculateScores sn accounts questions all_answers)
     = Array_sort by_percentage (evaluate_all sn accounts questions all_answers)"
proof -
  let ?ea = "evaluate_all sn accounts questions all_answers"
  have "map (set_rank 0) (assign_ranks (Array_sort by_percentage ?ea))
          = map (set_rank 0) (Array_sort by_percentage ?ea)"
    by (rule map_fun_assign_ranks) simp
  also have "\<dots> = Array_sort by_percentage ?ea"
  proof -
    have "\<forall>r \<in> set (Array_sort by_percentage ?ea). set_rank 0 r = r"
      by (auto simp: set_Array_sort evaluate_all_def)
    then show ?thesis by (simp add: map_idI)
  qed
  finally show ?thesis by (simp add: calculateScores_def)
qed

subsection \<open>The rows of the export\<close>

lemma join_comma_fields:
  "join '','' (csv_fields r) =
     Number_toString (rank (score r)) @ '','' @ name (account r) @ '','' @
     industry (account r) @ '','' @
     Number_toString (totalScore (score r)) @ ''/'' @ Number_toString (maxScore (score r)) @ '','' @
     Number_toString (percentage (score r)) @ ''%,'' @ tier_toString (tier (score r))"
  by (simp add: csv_fields_def)

lemma join_comma_header:
  "join '','' csv_header = ''Rank,Company,Industry,Score,Percentage,Tier''"
  by (simp add: csv_header_def)

section \<open>The specification's properties, checked against the code\<close>

subsection \<open>C1: the percentage\<close>

text \<open>
  Line 56 divides first and multiplies by 100 afterwards, each in double precision. Where
  \<open>maxScore\<close> is not positive the percentage is 0, as the specification says.
\<close>

lemma percentage_zero_without_positive_maxScore:
  assumes "r \<in> set (calculateScores sn accounts questions all_answers)"
    and "maxScore (score r) \<le> 0"
  shows "percentage (score r) = 0"
  using assms
  by (elim calculateScores_member)
     (simp add: set_rank_def percentage_evaluate_account percentage_of_def)

text \<open>
  The quotient 23/40 is not a double; the nearest one lies below it, and its product with
  100 rounds to the double just below 57.5.
\<close>

lemma binary64_23_40: "binary64 (23 / 40) = 2589569785738035 / 4503599627370496"
  by code_simp

lemma binary64_23_40_times_100:
  "binary64 (2589569785738035 / 4503599627370496 * 100) = 8092405580431359 / 140737488355328"
  by code_simp

text \<open>
  C1. For every account the percentage equals \<open>round(100 * totalScore / maxScore)\<close>
  whenever \<open>maxScore > 0\<close>, and 0 whenever \<open>maxScore \<le> 0\<close>. On the account with 23 of 40
  points the code stores 57, the specification's formula gives 58 (the exact value is 57.5).
\<close>

theorem percentage_23_of_40:
  "map (\<lambda>r. (totalScore (score r), maxScore (score r), percentage (score r)))
     (calculateScores no_number half_accounts half_questions half_answers) = [(23, 40, 57)]
   \<and> spec_percentage 23 40 = 58"
  by code_simp

subsection \<open>C2: the tier\<close>

text \<open>
  C2. For every account the tier is a function of the percentage alone, by fixed
  thresholds: at least 80 gives A, from 60 to below 80 gives B, from 40 to below 60 gives
  C, below 40 gives D; so the tier is monotonic in the percentage.
\<close>

theorem tier_by_thresholds:
  assumes "r \<in> set (calculateScores sn accounts questions all_answers)"
  shows "tier (score r) = tier_of (percentage (score r))
    \<and> (80 \<le> p \<longrightarrow> tier_of p = A)
    \<and> (60 \<le> p \<and> p < 80 \<longrightarrow> tier_of p = B)
    \<and> (40 \<le> p \<and> p < 60 \<longrightarrow> tier_of p = C)
    \<and> (p < 40 \<longrightarrow> tier_of p = D)
    \<and> (p \<le> p' \<longrightarrow> tier_grade (tier_of p) \<le> tier_grade (tier_of p'))"
proof -
  from assms have "tier (score r) = tier_of (percentage (score r))"
    by (elim calculateScores_member) (simp add: set_rank_def tier_evaluate_account)
  moreover have "p \<le> p' \<longrightarrow> tier_grade (tier_of p) \<le> tier_grade (tier_of p')"
    by (simp add: tier_of_mono)
  ultimately show ?thesis by (simp add: tier_of_def)
qed

theorem tier_by_thresholds_witness:
  "hd ex_results \<in> set ex_results
   \<and> percentage (score (hd ex_results)) = 100 \<and> tier (score (hd ex_results)) = A
   \<and> tier_of 85 = A \<and> tier_of 60 = B \<and> tier_of 59 = C \<and> tier_of 39 = D
   \<and> tier_grade (tier_of 59) \<le> tier_grade (tier_of 60)"
proof -
  have mem: "hd ex_results \<in> set ex_results" by code_simp
  have pct: "percentage (score (hd ex_results)) = 100" by code_simp
  note t = tier_by_thresholds [OF mem [unfolded ex_results_def]]
  from t [of 85 85] have a: "tier_of 85 = A" by simp
  from t [of 60 60] have b: "tier_of 60 = B" by simp
  from t [of 59 60] have c: "tier_of 59 = C" by simp
  from t [of 59 60] have m: "tier_grade (tier_of 59) \<le> tier_grade (tier_of 60)" by auto
  from t [of 39 39] have d: "tier_of 39 = D" by simp
  from t [of 100 100] pct have "tier (score (hd ex_results)) = A"
    by (simp add: ex_results_def)
  with mem pct a b c d m show ?thesis by simp
qed

subsection \<open>C3: one result per account, sorted, stable, ranked\<close>

text \<open>
  C3. The engine returns one result per input account (the accounts of the results are a
  permutation of the input accounts), sorted by percentage descending. The sort is stable:
  for every percentage \<open>p\<close> the results with that percentage are, rank aside, the results
  of the accounts with that percentage in the order of the input. The ranks are
  \<open>1, 2, ..., N\<close> in the order of the results, also on ties.
\<close>

theorem results_sorted_stable_ranked:
  "length (calculateScores sn accounts questions all_answers) = length accounts
   \<and> mset (map account (calculateScores sn accounts questions all_answers)) = mset accounts
   \<and> sorted_wrt (\<lambda>a b. percentage (score b) \<le> percentage (score a))
        (calculateScores sn accounts questions all_answers)
   \<and> filter (\<lambda>r. percentage (score r) = p)
        (map (set_rank 0) (calculateScores sn accounts questions all_answers))
      = filter (\<lambda>r. percentage (score r) = p)
          (map (evaluate_account sn questions all_answers) accounts)
   \<and> map (\<lambda>r. rank (score r)) (calculateScores sn accounts questions all_answers)
      = map int [1..<length accounts + 1]"
proof -
  let ?rs = "calculateScores sn accounts questions all_answers"
  let ?ea = "evaluate_all sn accounts questions all_answers"
  have "mset (map account ?rs) = mset (map account (Array_sort by_percentage ?ea))"
    by (simp add: calculateScores_def map_fun_assign_ranks)
  also have "\<dots> = image_mset account (mset ?ea)"
    by (simp add: mset_Array_sort)
  also have "\<dots> = mset accounts"
    by (simp add: evaluate_all_def multiset.map_comp comp_def)
  finally have perm: "mset (map account ?rs) = mset accounts" .
  have srt: "sorted_wrt (\<lambda>a b. percentage (score b) \<le> percentage (score a)) ?rs"
    unfolding calculateScores_def by (intro sorted_assign_ranks sorted_Array_sort)
  have stab: "filter (\<lambda>r. percentage (score r) = p) (map (set_rank 0) ?rs)
      = filter (\<lambda>r. percentage (score r) = p) (map (evaluate_account sn questions all_answers) accounts)"
    by (simp add: unranked_calculateScores stable_Array_sort evaluate_all_def)
  from perm srt stab show ?thesis
    by (simp add: length_calculateScores ranks_calculateScores)
qed

theorem results_sorted_stable_ranked_witness:
  "map (\<lambda>r. (acc_id (account r), percentage (score r), rank (score r)))
     (calculateScores no_number tie_accounts tie_questions tie_answers)
     = [(''w'', 100, 1), (''x'', 75, 2), (''y'', 75, 3)]
   \<and> map (\<lambda>r. acc_id (account r))
       (filter (\<lambda>r. percentage (score r) = 75)
         (map (evaluate_account no_number tie_questions tie_answers) tie_accounts))
     = [''x'', ''y'']
   \<and> map (\<lambda>r. acc_id (account r))
       (filter (\<lambda>r. percentage (score r) = 75)
         (map (set_rank 0) (calculateScores no_number tie_accounts tie_questions tie_answers)))
     = [''x'', ''y'']
   \<and> map (\<lambda>r. rank (score r)) (calculateScores no_number tie_accounts tie_questions tie_answers)
     = map int [1..<length tie_accounts + 1]"
proof -
  note t = results_sorted_stable_ranked [of no_number tie_accounts tie_questions tie_answers 75]
  have 1: "map (\<lambda>r. (acc_id (account r), percentage (score r), rank (score r)))
     (calculateScores no_number tie_accounts tie_questions tie_answers)
     = [(''w'', 100, 1), (''x'', 75, 2), (''y'', 75, 3)]"
    by code_simp
  have 2: "map (\<lambda>r. acc_id (account r))
       (filter (\<lambda>r. percentage (score r) = 75)
         (map (evaluate_account no_number tie_questions tie_answers) tie_accounts))
     = [''x'', ''y'']"
    by code_simp
  from t 1 2 show ?thesis by simp
qed

subsection \<open>C4: the maximal score\<close>

text \<open>
  C4. For every account, \<open>maxScore\<close> equals the sum of the weights of all questions in
  the input list of questions, whichever questions are answered and whatever the answers
  are: the right-hand side mentions neither the account nor the answers.
\<close>

theorem maxScore_is_sum_of_weights:
  assumes "r \<in> set (calculateScores sn accounts questions all_answers)"
  shows "maxScore (score r) = sum_list (map weight questions)"
  using assms by (elim calculateScores_member) (simp add: set_rank_def maxScore_evaluate_account)

theorem maxScore_is_sum_of_weights_witness:
  "hd ex_results \<in> set ex_results \<and> maxScore (score (hd ex_results)) = 10"
proof -
  have mem: "hd ex_results \<in> set ex_results" by code_simp
  have s: "sum_list (map weight ex_questions) = 10" by code_simp
  from maxScore_is_sum_of_weights [OF mem [unfolded ex_results_def]]
  show ?thesis using mem s by (simp add: ex_results_def)
qed

subsection \<open>C5: boolean questions\<close>

text \<open>
  C5. An answered question of type boolean adds the full weight to \<open>totalScore\<close> if the
  stored answer is the boolean \<open>true\<close> and nothing otherwise; the string \<open>"true"\<close> adds
  nothing. With a weight other than 0, the score is the weight if and only if the answer
  is \<open>true\<close>.
\<close>

theorem boolean_question_score:
  assumes "q_type question = Boolean"
    and "find (\<lambda>a. questionId a = q_id question) accountAnswers = Some a"
  shows "question_step sn accountAnswers question (tot, mx)
           = (tot + (if answer a = ABool True then weight question else 0), mx + weight question)
    \<and> (answer a = AStr ''true'' \<longrightarrow>
          question_step sn accountAnswers question (tot, mx) = (tot, mx + weight question))
    \<and> (weight question \<noteq> 0 \<longrightarrow>
          (score_answer sn question a = weight question \<longleftrightarrow> answer a = ABool True))"
  using assms by (simp add: question_step_def score_answer_def)

theorem boolean_question_score_witness:
  "q_type (mk_question ''q'' Boolean 7) = Boolean
   \<and> find (\<lambda>a. questionId a = q_id (mk_question ''q'' Boolean 7))
        [mk_answer ''x'' ''q'' (AStr ''true'')] = Some (mk_answer ''x'' ''q'' (AStr ''true''))
   \<and> question_step no_number [mk_answer ''x'' ''q'' (AStr ''true'')]
        (mk_question ''q'' Boolean 7) (0, 0) = (0, 7)
   \<and> question_step no_number [mk_answer ''x'' ''q'' (ABool True)]
        (mk_question ''q'' Boolean 7) (0, 0) = (7, 7)"
proof -
  let ?q = "mk_question ''q'' Boolean 7"
  let ?s = "mk_answer ''x'' ''q'' (AStr ''true'')"
  let ?b = "mk_answer ''x'' ''q'' (ABool True)"
  have ty: "q_type ?q = Boolean" by (simp add: mk_question_def)
  have fs: "find (\<lambda>a. questionId a = q_id ?q) [?s] = Some ?s"
    by (simp add: mk_question_def mk_answer_def)
  have fb: "find (\<lambda>a. questionId a = q_id ?q) [?b] = Some ?b"
    by (simp add: mk_question_def mk_answer_def)
  have as: "answer ?s = AStr ''true''" and ab: "answer ?b = ABool True" and w: "weight ?q = 7"
    by (simp_all add: mk_question_def mk_answer_def)
  from boolean_question_score [OF ty fs, where sn = no_number and tot = 0 and mx = 0] as w
  have 1: "question_step no_number [?s] ?q (0, 0) = (0, 7)" by simp
  from boolean_question_score [OF ty fb, where sn = no_number and tot = 0 and mx = 0] ab w
  have 2: "question_step no_number [?b] ?q (0, 0) = (7, 7)" by simp
  from ty fs 1 2 show ?thesis by simp
qed

subsection \<open>C6: number questions\<close>



subsection \<open>C7: multiple-choice questions\<close>

text \<open>
  The specification lets only a non-empty string score. The code tests the truthiness of the stored
  answer, whatever its type: the boolean \<open>true\<close> stored for a multiple-choice question of
  weight 5 scores 5.
\<close>

theorem multiple_choice_not_only_strings:
  "fst (question_step no_number [mk_answer ''x'' ''m'' (ABool True)] mc_question (0, 0))
     = weight mc_question
   \<and> weight mc_question = 5
   \<and> \<not> nonempty_string (answer (mk_answer ''x'' ''m'' (ABool True)))"
  by code_simp

text \<open>
  C7, amended. An answered question of type multiple_choice adds the full weight if the
  stored answer is truthy and nothing otherwise: a string scores if and only if it is not
  empty, whether or not it is one of the question's options (the options do not occur in
  the score), so all options score alike; the boolean \<open>true\<close>, a number other than 0 and
  \<open>NaN\<close> score as well.
\<close>

theorem multiple_choice_question_score:
  assumes "q_type question = MultipleChoice"
    and "find (\<lambda>a. questionId a = q_id question) accountAnswers = Some a"
  shows "fst (question_step sn accountAnswers question (tot, mx)) =
     tot + (case answer a of
              AStr s \<Rightarrow> if s \<noteq> [] then weight question else 0
            | ABool b \<Rightarrow> if b then weight question else 0
            | ANum (Finite x) \<Rightarrow> if x \<noteq> 0 then weight question else 0
            | ANum NaN \<Rightarrow> 0
            | ANum PosInfinity \<Rightarrow> weight question
            | ANum NegInfinity \<Rightarrow> weight question)"
  using assms
  by (simp add: question_step_def score_answer_def split: answer_value.split number.split)

theorem multiple_choice_question_score_witness:
  "q_type mc_question = MultipleChoice \<and> options mc_question = Some [''Low'', ''High'']
   \<and> fst (question_step no_number [mk_answer ''x'' ''m'' (AStr ''High'')] mc_question (0, 0)) = 5
   \<and> fst (question_step no_number [mk_answer ''x'' ''m'' (AStr ''Other'')] mc_question (0, 0)) = 5
   \<and> fst (question_step no_number [mk_answer ''x'' ''m'' (AStr '''')] mc_question (0, 0)) = 0
   \<and> fst (question_step no_number [mk_answer ''x'' ''m'' (ABool True)] mc_question (0, 0)) = 5"
proof -
  have ty: "q_type mc_question = MultipleChoice" and w: "weight mc_question = 5"
    and o: "options mc_question = Some [''Low'', ''High'']"
    by (simp_all add: mc_question_def mk_question_def)
  have f: "find (\<lambda>a. questionId a = q_id mc_question) [mk_answer ''x'' ''m'' v]
             = Some (mk_answer ''x'' ''m'' v)" for v
    by (simp add: mc_question_def mk_question_def mk_answer_def)
  have a: "answer (mk_answer ''x'' ''m'' v) = v" for v
    by (simp add: mk_answer_def)
  note t = multiple_choice_question_score [where sn = no_number and tot = 0 and mx = 0, OF ty f]
  from t [of "AStr ''High''"] t [of "AStr ''Other''"] t [of "AStr ''''"] t [of "ABool True"]
  show ?thesis by (simp add: a w ty o)
qed

subsection \<open>C8: the bounds of the total score\<close>

text \<open>
  C8. For every account, if no question has a negative weight, then
  \<open>0 \<le> totalScore \<le> maxScore\<close>.
\<close>

theorem totalScore_between_zero_and_maxScore:
  assumes "\<forall>q \<in> set questions. 0 \<le> weight q"
    and "r \<in> set (calculateScores sn accounts questions all_answers)"
  shows "0 \<le> totalScore (score r) \<and> totalScore (score r) \<le> maxScore (score r)"
proof -
  from assms(2) obtain k acc where
    r: "r = set_rank k (evaluate_account sn questions all_answers acc)"
    by (rule calculateScores_member)
  from fold_question_step_bounds [OF assms(1), of 0 0] show ?thesis
    by (simp add: r set_rank_def evaluate_account_def Let_def)
qed

theorem totalScore_between_zero_and_maxScore_witness:
  "map weight ex_questions = [6, 4] \<and> ex_results ! 1 \<in> set ex_results
   \<and> totalScore (score (ex_results ! 1)) = 6 \<and> maxScore (score (ex_results ! 1)) = 10
   \<and> 0 \<le> totalScore (score (ex_results ! 1))
   \<and> totalScore (score (ex_results ! 1)) \<le> maxScore (score (ex_results ! 1))"
proof -
  have w: "\<forall>q \<in> set ex_questions. 0 \<le> weight q" by code_simp
  have mem: "ex_results ! 1 \<in> set ex_results" by code_simp
  have v: "totalScore (score (ex_results ! 1)) = 6" "maxScore (score (ex_results ! 1)) = 10"
    by code_simp+
  have ws: "map weight ex_questions = [6, 4]" by code_simp
  from totalScore_between_zero_and_maxScore [OF w mem [unfolded ex_results_def]] ws mem v
  show ?thesis by (simp add: ex_results_def)
qed

subsection \<open>C9: the CSV export\<close>

text \<open>
  The specification puts the score and the percentage of a row in double quotes. The code joins
  the cells with commas and adds no quote: the export of the three example results
  contains none and differs from the text in the specification's format.
\<close>

theorem csv_rows_unquoted_example:
  "exportResults ex_results =
     ''Rank,Company,Industry,Score,Percentage,Tier'' @ [CHR 0x0A] @
     ''1,Zephyr,Media,10/10,100%,A'' @ [CHR 0x0A] @
     ''2,Xenon,Energy,6/10,60%,B'' @ [CHR 0x0A] @
     ''3,Yarrow,Retail,4/10,40%,C''
   \<and> CHR 0x22 \<notin> set (exportResults ex_results)
   \<and> exportResults ex_results \<noteq> spec_csv ex_results"
  by code_simp

text \<open>
  C9, amended. The export is the header row \<open>Rank,Company,Industry,Score,Percentage,Tier\<close>
  followed by one row per result, the rows separated by line feeds, each row being
  \<open>rank,name,industry,total/max,percentage%,tier\<close> with no quote around any cell; the
  ranks of the rows are \<open>1, 2, ..., N\<close> in this order.
\<close>

theorem csv_export_format:
  "exportResults (calculateScores sn accounts questions all_answers) =
     join [CHR 0x0A]
       (''Rank,Company,Industry,Score,Percentage,Tier'' #
        map (\<lambda>r. Number_toString (rank (score r)) @ '','' @ name (account r) @ '','' @
                  industry (account r) @ '','' @
                  Number_toString (totalScore (score r)) @ ''/'' @
                  Number_toString (maxScore (score r)) @ '','' @
                  Number_toString (percentage (score r)) @ ''%,'' @ tier_toString (tier (score r)))
            (calculateScores sn accounts questions all_answers))
   \<and> map (\<lambda>r. rank (score r)) (calculateScores sn accounts questions all_answers)
       = map int [1..<length accounts + 1]"
  by (simp add: exportResults_def join_comma_header join_comma_fields comp_def
        ranks_calculateScores del: upt_Suc)

subsection \<open>C10: several answers of one account to one question\<close>

text \<open>
  C10. Every question is scored by the first answer in the input list of answers that
  carries the account's id and the question's id (\<open>find\<close> returns the first match), so
  later answers to the same pair do not count; the result's \<open>answers\<close> are all the answers
  with the account's id, the later ones included.
\<close>

theorem first_answer_scores_all_answers_kept:
  assumes "r \<in> set (calculateScores sn accounts questions all_answers)"
  shows "totalScore (score r) =
     (\<Sum>q\<leftarrow>questions.
        case find (\<lambda>a. accountId a = acc_id (account r) \<and> questionId a = q_id q) all_answers of
          None \<Rightarrow> 0 | Some a \<Rightarrow> score_answer sn q a)
   \<and> answers r = filter (\<lambda>a. accountId a = acc_id (account r)) all_answers"
  using assms
  by (elim calculateScores_member)
     (simp add: set_rank_def totalScore_evaluate_account answers_evaluate_account)

theorem first_answer_scores_all_answers_kept_witness:
  "hd dup_results \<in> set dup_results
   \<and> map answer dup_answers = [ABool False, ABool True]
   \<and> totalScore (score (hd dup_results)) = 0
   \<and> answers (hd dup_results) = dup_answers
   \<and> map (\<lambda>r. totalScore (score r))
        (calculateScores no_number dup_accounts dup_questions (rev dup_answers)) = [10]"
proof -
  have mem: "hd dup_results \<in> set dup_results" by code_simp
  have a: "map answer dup_answers = [ABool False, ABool True]" by code_simp
  have s: "(\<Sum>q\<leftarrow>dup_questions.
        case find (\<lambda>a. accountId a = acc_id (account (hd dup_results)) \<and> questionId a = q_id q)
               dup_answers of
          None \<Rightarrow> 0 | Some a \<Rightarrow> score_answer no_number q a) = 0"
    by code_simp
  have f: "filter (\<lambda>a. accountId a = acc_id (account (hd dup_results))) dup_answers = dup_answers"
    by code_simp
  have r: "map (\<lambda>r. totalScore (score r))
        (calculateScores no_number dup_accounts dup_questions (rev dup_answers)) = [10]"
    by code_simp
  from first_answer_scores_all_answers_kept [OF mem [unfolded dup_results_def]] s f mem a r
  show ?thesis by (simp add: dup_results_def)
qed

end
